theory Spec2Isabelle
  imports Main
begin

section \<open>Data model of \<^verbatim>\<open>src/nodes/tahoma.ts\<close>\<close>

text \<open>
  A JavaScript string is the list of its UTF-16 code units, each a number below 65536
  (no definition below depends on that bound). \<open>lit\<close> gives the code units of a literal
  of the source, which are all ASCII.
\<close>

type_synonym jsstring = "nat list"

definition lit :: "string \<Rightarrow> jsstring" where
  "lit s = map of_char s"

text \<open>
  A JavaScript number as \<^verbatim>\<open>parseInt\<close> returns it: the not-a-number value, a finite double
  whose value is an integer, or an infinity. The negative zero that
  \<^verbatim>\<open>parseInt('-0', 10)\<close> returns is identified with zero: \<^verbatim>\<open>-0 || 0\<close> is 0 and both are
  sent to the gateway as 0.
\<close>

datatype jsnum = NaN | Num int | PosInfinity | NegInfinity

text \<open>The interface \<^verbatim>\<open>ITahomaControlPayload\<close> (lines 11-17).\<close>

record ITahomaControlPayload =
  action :: jsstring
  orientation :: jsstring
  position :: jsstring
  lowspeed :: bool
  repetitions :: jsstring

text \<open>
  The interface \<^verbatim>\<open>ITahomaControlMessage\<close> (lines 7-9): the payload, and the rest of the
  host runtime's message reduced to its identifier.
\<close>

record ITahomaControlMessage =
  msgid :: jsstring
  payload :: ITahomaControlPayload

text \<open>The enum \<^verbatim>\<open>TahomaCommands\<close> (lines 19-27) and the string value of each member.\<close>

datatype TahomaCommands =
  OPEN | CLOSE | ROTATION | STOP | SET_CLOSURE | SET_CLOSURE_AND_ORIENTATION | WINK

fun enum_value :: "TahomaCommands \<Rightarrow> jsstring" where
  "enum_value OPEN = lit ''open''"
| "enum_value CLOSE = lit ''close''"
| "enum_value ROTATION = lit ''rotation''"
| "enum_value STOP = lit ''stop''"
| "enum_value SET_CLOSURE = lit ''setClosure''"
| "enum_value SET_CLOSURE_AND_ORIENTATION = lit ''setClosureAndOrientation''"
| "enum_value WINK = lit ''wink''"

text \<open>
  The interface \<^verbatim>\<open>ITahomaControlInstructions\<close> (lines 29-37). An optional field is an
  \<open>option\<close>; \<open>None\<close> is the field left out of the object literal (\<^verbatim>\<open>undefined\<close>).
  The fields of \<^verbatim>\<open>expectedState\<close> carry a prefix, since the payload uses the same names,
  and so do those of \<^verbatim>\<open>labels\<close>, since \<^verbatim>\<open>done\<close> is a keyword of Isabelle.
\<close>

record expected_state =
  st_open :: "bool option"
  st_position :: "jsnum option"
  st_orientation :: "jsnum option"
  st_repetitions :: "jsnum option"

record labels_rec =
  label_done :: jsstring
  label_progress :: jsstring

record ITahomaControlInstructions =
  command :: TahomaCommands
  parameters :: "jsnum list option"
  expectedState :: "expected_state option"
  labels :: labels_rec

section \<open>The builtin \<^verbatim>\<open>parseInt(text, 10)\<close>\<close>

text \<open>
  The Number value of a mathematical integer (ECMAScript's conversion of a real to a
  double): an integer of at most 53 bits is itself; a longer one is rounded to 53
  significant bits, to the nearest and on a tie to the even one; a result of \<open>2^1024\<close>
  or more in magnitude is an infinity.
\<close>

fun bitLength :: "nat \<Rightarrow> nat" where
  "bitLength n = (if n = 0 then 0 else Suc (bitLength (n div 2)))"

definition roundToDouble :: "nat \<Rightarrow> nat option" where
  "roundToDouble m =
     (if m < 2 ^ 53 then Some m
      else let e = bitLength m - 53;
               q = m div 2 ^ e;
               r = m mod 2 ^ e;
               q' = (if 2 ^ e < 2 * r \<or> (2 * r = 2 ^ e \<and> odd q) then q + 1 else q)
           in if 2 ^ 1024 \<le> q' * 2 ^ e then None else Some (q' * 2 ^ e))"

definition toNumber :: "int \<Rightarrow> jsnum" where
  "toNumber x =
     (case roundToDouble (nat \<bar>x\<bar>) of
        None \<Rightarrow> (if x < 0 then NegInfinity else PosInfinity)
      | Some m \<Rightarrow> Num (if x < 0 then - int m else int m))"

text \<open>
  ECMAScript's \<^verbatim>\<open>parseInt\<close> with radix 10: leading white space is dropped, one sign is
  read, the longest run of decimal digits that follows is the value, and the rest of
  the text is ignored; with no digit there the result is the not-a-number value. The
  value is converted to a double by correct rounding, as V8 does. White space is
  ECMAScript's WhiteSpace and LineTerminator: TAB, LF, VT, FF, CR, SP, NBSP, U+1680,
  U+2000 to U+200A, U+2028, U+2029, U+202F, U+205F, U+3000 and U+FEFF. The signs are the
  code units 43 (plus) and 45 (minus), the digits 48 to 57.
\<close>

definition isWhiteSpace :: "nat \<Rightarrow> bool" where
  "isWhiteSpace c =
     (c \<in> {9, 10, 11, 12, 13, 32, 160, 5760, 8232, 8233, 8239, 8287, 12288, 65279}
      \<or> (8192 \<le> c \<and> c \<le> 8202))"

definition isDigit :: "nat \<Rightarrow> bool" where
  "isDigit c = (48 \<le> c \<and> c \<le> 57)"

definition digitValue :: "nat \<Rightarrow> int" where
  "digitValue c = int c - 48"

definition mathInt :: "jsstring \<Rightarrow> int" where
  "mathInt Z = foldl (\<lambda>a c. 10 * a + digitValue c) 0 Z"

definition parseInt10 :: "jsstring \<Rightarrow> jsnum" where
  "parseInt10 inputString =
     (let S = dropWhile isWhiteSpace inputString;
          sign = (if S \<noteq> [] \<and> hd S = 45 then - 1 else 1);
          S' = (if S \<noteq> [] \<and> (hd S = 43 \<or> hd S = 45) then tl S else S);
          Z = takeWhile isDigit S'
      in if Z = [] then NaN else toNumber (sign * mathInt Z))"

section \<open>The instruction resolver\<close>

text \<open>
  \<^verbatim>\<open>generateInstructionsFromPayload\<close> (lines 123-208). The \<^verbatim>\<open>switch\<close> compares the action
  with each label by strict equality, in the order of the source; \<open>None\<close> is the
  \<^verbatim>\<open>null\<close> of the default branch. A template literal splices the field's text as it is.
\<close>

definition generateInstructionsFromPayload ::
  "ITahomaControlPayload \<Rightarrow> ITahomaControlInstructions option" where
  "generateInstructionsFromPayload p =
    (if action p = lit ''open'' then
       Some \<lparr>command = OPEN, parameters = None,
         expectedState = Some \<lparr>st_open = Some True, st_position = Some (Num 0),
           st_orientation = None, st_repetitions = None\<rparr>,
         labels = \<lparr>label_done = lit ''Open'', label_progress = lit ''Opening...''\<rparr>\<rparr>
     else if action p = lit ''close'' then
       Some \<lparr>command = CLOSE, parameters = None,
         expectedState = Some \<lparr>st_open = Some False, st_position = Some (Num 100),
           st_orientation = None, st_repetitions = None\<rparr>,
         labels = \<lparr>label_done = lit ''Closed'', label_progress = lit ''Closing...''\<rparr>\<rparr>
     else if action p = lit ''customPosition'' then
       Some \<lparr>command = SET_CLOSURE, parameters = Some [parseInt10 (position p)],
         expectedState = Some \<lparr>st_open = Some True,
           st_position = Some (parseInt10 (position p)),
           st_orientation = None, st_repetitions = None\<rparr>,
         labels = \<lparr>label_done = lit ''Set to '' @ position p,
           label_progress = lit ''Setting to '' @ position p\<rparr>\<rparr>
     else if action p = lit ''customRotation'' \<or> action p = lit ''customOrientation'' then
       Some \<lparr>command = ROTATION, parameters = Some [parseInt10 (orientation p)],
         expectedState = Some \<lparr>st_open = None, st_position = None,
           st_orientation = Some (parseInt10 (orientation p)), st_repetitions = None\<rparr>,
         labels = \<lparr>label_done = lit ''Rotated to '' @ orientation p,
           label_progress = lit ''Rotating to '' @ orientation p @ lit ''...''\<rparr>\<rparr>
     else if action p = lit ''customClosureAndOrientation'' then
       Some \<lparr>command = SET_CLOSURE_AND_ORIENTATION,
         parameters = Some [parseInt10 (position p), parseInt10 (orientation p)],
         expectedState = Some \<lparr>st_open = None,
           st_position = Some (parseInt10 (position p)),
           st_orientation = Some (parseInt10 (orientation p)), st_repetitions = None\<rparr>,
         labels = \<lparr>label_done = lit ''Set to position:'' @ position p @ lit '', orientation:''
             @ orientation p,
           label_progress = lit ''Moving to position:'' @ position p @ lit '', orientation:''
             @ orientation p @ lit ''...''\<rparr>\<rparr>
     else if action p = lit ''stop'' then
       Some \<lparr>command = STOP, parameters = None, expectedState = None,
         labels = \<lparr>label_done = lit ''Stopped'', label_progress = lit ''Stopping...''\<rparr>\<rparr>
     else if action p = lit ''wink'' then
       Some \<lparr>command = WINK, parameters = Some [parseInt10 (repetitions p)],
         expectedState = Some \<lparr>st_open = None, st_position = None,
           st_orientation = None, st_repetitions = Some (parseInt10 (repetitions p))\<rparr>,
         labels = \<lparr>label_done = lit ''Stopped'',
           label_progress = lit ''Winking '' @ repetitions p @ lit '' time(s)''\<rparr>\<rparr>
     else None)"

section \<open>The collaborators and what an invocation does\<close>

text \<open>
  A promise of the gateway client either rejects or fulfils with a value. The status of
  an execution is opaque; \<open>None\<close> is the \<^verbatim>\<open>null\<close> the gateway answers once nothing is
  pending for the execution id.
\<close>

datatype 'a future = Rejected | Fulfilled 'a

type_synonym status = "string option"

text \<open>
  \<^verbatim>\<open>ICommand\<close> and \<^verbatim>\<open>ICommandExecutionResponse\<close> are declared outside this file; their
  fields are the ones lines 80-83 and 108 use.
\<close>

record ICommand =
  name :: jsstring
  params :: "jsnum list"

record ICommandExecutionResponse =
  execId :: jsstring

text \<open>
  \<^verbatim>\<open>SomfyApi\<close>: the two operations of the gateway client this file calls. The answer of
  \<^verbatim>\<open>getStatusForExecutionId\<close> also depends on how many times the status of that
  execution has been asked before (the second argument).
\<close>

record SomfyApi =
  execute :: "jsstring \<Rightarrow> ICommand \<Rightarrow> ICommandExecutionResponse future"
  getStatusForExecutionId :: "jsstring \<Rightarrow> nat \<Rightarrow> status future"

text \<open>The node's own properties (lines 69-71).\<close>

record tahoma_node =
  device :: jsstring
  tahomabox :: jsstring
  node_name :: jsstring

text \<open>
  What an invocation does to the outside, in order: a status shown on the node (its
  field \<^verbatim>\<open>text\<close> is \<open>status_text\<close> here), a call of the gateway client, a timer of so many
  milliseconds that has run out, the message sent downstream.
\<close>

record node_status =
  fill :: jsstring
  shape :: jsstring
  status_text :: jsstring

datatype event =
  Status node_status
| Execute jsstring ICommand
| SetTimeout nat
| GetStatus jsstring
| Send ITahomaControlMessage

definition STATE_VALIDATOR_POLLING_DELAY :: nat where
  "STATE_VALIDATOR_POLLING_DELAY = 2500"

text \<open>
  \<^verbatim>\<open>validateStatus\<close> (lines 40-50): the timer runs out, then the status is asked, then
  the promise is resolved with \<^verbatim>\<open>status === null\<close>. When the status call rejects, the
  \<^verbatim>\<open>await\<close> throws inside the timer's callback, \<^verbatim>\<open>resolve\<close> is never called and the
  promise never settles: the result is \<open>None\<close>.
\<close>

definition validateStatus :: "SomfyApi \<Rightarrow> jsstring \<Rightarrow> nat \<Rightarrow> event list \<times> bool option" where
  "validateStatus somfyClient eid k =
     ([SetTimeout STATE_VALIDATOR_POLLING_DELAY, GetStatus eid],
      case getStatusForExecutionId somfyClient eid k of
        Rejected \<Rightarrow> None
      | Fulfilled status \<Rightarrow> Some (status = None))"

text \<open>
  \<^verbatim>\<open>continueWhenCompleted\<close> (lines 52-61). The recursion of the source has no bound, so
  the model observes it for a number of rounds: \<open>StillPolling\<close> is the state of a
  tracker that has made that many status calls and is about to make the next one.
  \<open>NeverSettles\<close> is the tracker whose status call rejected.
\<close>

datatype tracking = Resolved | NeverSettles | StillPolling

fun continueWhenCompleted :: "nat \<Rightarrow> SomfyApi \<Rightarrow> jsstring \<Rightarrow> nat \<Rightarrow> event list \<times> tracking" where
  "continueWhenCompleted 0 somfyClient eid k = ([], StillPolling)"
| "continueWhenCompleted (Suc rounds) somfyClient eid k =
     (case validateStatus somfyClient eid k of
        (evs, None) \<Rightarrow> (evs, NeverSettles)
      | (evs, Some isFinished) \<Rightarrow>
          if \<not> isFinished then
            (case continueWhenCompleted rounds somfyClient eid (Suc k) of
               (evs', r) \<Rightarrow> (evs @ evs', r))
          else (evs, Resolved))"

text \<open>
  Lines 80-89: the command built from the instructions, and the low-speed override.
  \<^verbatim>\<open>x || 0\<close> is 0 when \<^verbatim>\<open>x\<close> is \<^verbatim>\<open>undefined\<close>, the not-a-number value or zero, and
  \<^verbatim>\<open>x\<close> otherwise. Reading \<^verbatim>\<open>position\<close> of an \<^verbatim>\<open>expectedState\<close> that is \<^verbatim>\<open>undefined\<close>
  throws a TypeError.
\<close>

datatype error = TypeError

definition targetPosition :: "expected_state \<Rightarrow> jsnum" where
  "targetPosition es =
     (case st_position es of
        None \<Rightarrow> Num 0
      | Some NaN \<Rightarrow> Num 0
      | Some (Num n) \<Rightarrow> (if n = 0 then Num 0 else Num n)
      | Some PosInfinity \<Rightarrow> PosInfinity
      | Some NegInfinity \<Rightarrow> NegInfinity)"

definition buildCommand ::
  "ITahomaControlPayload \<Rightarrow> ITahomaControlInstructions \<Rightarrow> error + ICommand" where
  "buildCommand p instructions =
     (let cmd = \<lparr>name = enum_value (command instructions),
                 params = (case parameters instructions of None \<Rightarrow> [] | Some ps \<Rightarrow> ps)\<rparr>
      in if lowspeed p \<and> enum_value (command instructions) \<noteq> (lit ''stop'') then
           (case expectedState instructions of
              None \<Rightarrow> Inl TypeError
            | Some es \<Rightarrow> Inr (cmd\<lparr>name := lit ''position_low_speed'', params := [targetPosition es]\<rparr>))
         else Inr cmd)"

text \<open>
  The handler of the \<^verbatim>\<open>input\<close> event (lines 73-118), with the promise chain it starts
  followed to its end. \<open>Ignored\<close> is the early return of line 77, \<open>Threw\<close> an
  exception thrown by the handler itself, \<open>Unhandled\<close> a rejection of the gateway
  client that no handler of this file catches, \<open>Forwarded\<close> the chain that reached
  \<^verbatim>\<open>this.send(msg)\<close>, and \<open>Tracking\<close> the chain that is still polling after the
  observed number of rounds.
\<close>

datatype outcome = Ignored | Threw error | Unhandled | Forwarded | Tracking

definition on_input ::
  "nat \<Rightarrow> tahoma_node \<Rightarrow> SomfyApi \<Rightarrow> ITahomaControlMessage \<Rightarrow> event list \<times> outcome" where
  "on_input rounds this somfyApiClient msg =
     (case generateInstructionsFromPayload (payload msg) of
        None \<Rightarrow> ([], Ignored)
      | Some instructions \<Rightarrow>
          (case buildCommand (payload msg) instructions of
             Inl e \<Rightarrow> ([], Threw e)
           | Inr cmd \<Rightarrow>
               (let evs = [Status \<lparr>fill = lit ''yellow'', shape = lit ''dot'',
                             status_text = label_progress (labels instructions)\<rparr>,
                           Execute (device this) cmd]
                in case execute somfyApiClient (device this) cmd of
                     Rejected \<Rightarrow> (evs, Unhandled)
                   | Fulfilled commandExecutionResponse \<Rightarrow>
                       (case expectedState instructions of
                          None \<Rightarrow>
                            (evs @ [Status \<lparr>fill = lit ''grey'', shape = lit ''dot'', status_text = lit ''Unknown''\<rparr>,
                                    Send msg], Forwarded)
                        | Some es \<Rightarrow>
                            (case continueWhenCompleted rounds somfyApiClient
                                    (execId commandExecutionResponse) 0 of
                               (tevs, Resolved) \<Rightarrow>
                                 (evs @ tevs @
                                    [Status \<lparr>fill = lit ''green'', shape = lit ''dot'',
                                       status_text = label_done (labels instructions)\<rparr>,
                                     Send msg], Forwarded)
                             | (tevs, NeverSettles) \<Rightarrow> (evs @ tevs, Unhandled)
                             | (tevs, StillPolling) \<Rightarrow> (evs @ tevs, Tracking))))))"

section \<open>Reading a trace\<close>

text \<open>The events of \<open>n\<close> rounds of polling, and what a trace adds up to.\<close>

definition polls :: "nat \<Rightarrow> jsstring \<Rightarrow> event list" where
  "polls n eid = concat (replicate n [SetTimeout STATE_VALIDATOR_POLLING_DELAY, GetStatus eid])"

fun waited :: "event list \<Rightarrow> nat" where
  "waited [] = 0"
| "waited (SetTimeout ms # evs) = ms + waited evs"
| "waited (ev # evs) = waited evs"

fun probes :: "event list \<Rightarrow> nat" where
  "probes [] = 0"
| "probes (GetStatus eid # evs) = Suc (probes evs)"
| "probes (ev # evs) = probes evs"

fun sends :: "event list \<Rightarrow> nat" where
  "sends [] = 0"
| "sends (Send m # evs) = Suc (sends evs)"
| "sends (ev # evs) = sends evs"

fun is_status :: "event \<Rightarrow> bool" where
  "is_status (Status s) = True"
| "is_status ev = False"

fun is_send :: "event \<Rightarrow> bool" where
  "is_send (Send m) = True"
| "is_send ev = False"

text \<open>A status call that fulfils with anything but \<^verbatim>\<open>null\<close>: the execution is pending.\<close>

fun pending :: "status future \<Rightarrow> bool" where
  "pending (Fulfilled (Some s)) = True"
| "pending r = False"

text \<open>The labels of the \<^verbatim>\<open>switch\<close>, and the statuses the handler shows.\<close>

definition action_table :: "jsstring list" where
  "action_table = [(lit ''open''), (lit ''close''), (lit ''customPosition''), (lit ''customRotation''),
     (lit ''customOrientation''), (lit ''customClosureAndOrientation''), (lit ''stop''), (lit ''wink'')]"

definition progress_status :: "ITahomaControlInstructions \<Rightarrow> node_status" where
  "progress_status instructions =
     \<lparr>fill = lit ''yellow'', shape = lit ''dot'', status_text = label_progress (labels instructions)\<rparr>"

definition terminal_status :: "ITahomaControlInstructions \<Rightarrow> node_status" where
  "terminal_status instructions =
     (case expectedState instructions of
        None \<Rightarrow> \<lparr>fill = lit ''grey'', shape = lit ''dot'', status_text = lit ''Unknown''\<rparr>
      | Some es \<Rightarrow>
          \<lparr>fill = lit ''green'', shape = lit ''dot'', status_text = label_done (labels instructions)\<rparr>)"

subsection \<open>Concrete inputs\<close>

definition node0 :: tahoma_node where
  "node0 = \<lparr>device = lit ''io://1234/5678'', tahomabox = lit ''box'', node_name = lit ''shutter''\<rparr>"

definition payload_of :: "jsstring \<Rightarrow> jsstring \<Rightarrow> bool \<Rightarrow> ITahomaControlPayload" where
  "payload_of a num slow =
     \<lparr>action = a, orientation = num, position = num, lowspeed = slow, repetitions = num\<rparr>"

definition msg_of :: "jsstring \<Rightarrow> jsstring \<Rightarrow> bool \<Rightarrow> ITahomaControlMessage" where
  "msg_of a num slow = \<lparr>msgid = lit ''m1'', payload = payload_of a num slow\<rparr>"

text \<open>
  A gateway that accepts every command as execution \<open>e1\<close> and reports it pending twice,
  then absent; one that rejects the third status call instead; one that rejects every
  command.
\<close>

definition gw_busy_twice :: SomfyApi where
  "gw_busy_twice =
     \<lparr>execute = (\<lambda>dev cmd. Fulfilled \<lparr>execId = lit ''e1''\<rparr>),
      getStatusForExecutionId = (\<lambda>eid k. if k < 2 then Fulfilled (Some ''running'') else Fulfilled None)\<rparr>"

definition gw_status_fails :: SomfyApi where
  "gw_status_fails =
     \<lparr>execute = (\<lambda>dev cmd. Fulfilled \<lparr>execId = lit ''e1''\<rparr>),
      getStatusForExecutionId = (\<lambda>eid k. if k < 2 then Fulfilled (Some ''running'') else Rejected)\<rparr>"

definition gw_execute_fails :: SomfyApi where
  "gw_execute_fails =
     \<lparr>execute = (\<lambda>dev cmd. Rejected),
      getStatusForExecutionId = (\<lambda>eid k. Fulfilled None)\<rparr>"

section \<open>Facts about the tracker and the handler\<close>

lemma lit_eq_iff: "lit s = lit t \<longleftrightarrow> s = t"
  by (simp add: lit_def inj_map_eq_map inj_on_def)

lemma lit_join: "lit a @ lit b = lit (a @ b)"
  by (simp add: lit_def)

declare lit_eq_iff [simp] lit_join [simp]

lemma toNumber_exact: "\<bar>x\<bar> < 2 ^ 53 \<Longrightarrow> toNumber x = Num x"
  by (auto simp: toNumber_def roundToDouble_def)

lemmas parse_defs = parseInt10_def isWhiteSpace_def isDigit_def digitValue_def mathInt_def
  lit_def toNumber_exact

lemma polls_Suc:
  "polls (Suc n) eid = [SetTimeout STATE_VALIDATOR_POLLING_DELAY, GetStatus eid] @ polls n eid"
  by (simp add: polls_def)

lemma polls_0: "polls 0 eid = []"
  by (simp add: polls_def)

lemma waited_polls: "waited (polls n eid) = n * 2500"
  by (induction n) (simp_all add: polls_def STATE_VALIDATOR_POLLING_DELAY_def)

lemma probes_polls: "probes (polls n eid) = n"
  by (induction n) (simp_all add: polls_def)

lemma pending_iff: "pending r \<longleftrightarrow> (\<exists>s. r = Fulfilled (Some s))"
  by (cases r rule: pending.cases) simp_all

lemma validateStatus_pending:
  "pending (getStatusForExecutionId api eid k) \<Longrightarrow>
   validateStatus api eid k = (polls 1 eid, Some False)"
  by (auto simp: validateStatus_def polls_def pending_iff)

lemma validateStatus_null:
  "getStatusForExecutionId api eid k = Fulfilled None \<Longrightarrow>
   validateStatus api eid k = (polls 1 eid, Some True)"
  by (simp add: validateStatus_def polls_def)

lemma validateStatus_rejected:
  "getStatusForExecutionId api eid k = Rejected \<Longrightarrow>
   validateStatus api eid k = (polls 1 eid, None)"
  by (simp add: validateStatus_def polls_def)

lemma tracker_still_polling:
  "(\<forall>j<n. pending (getStatusForExecutionId api eid (k + j))) \<Longrightarrow>
   continueWhenCompleted n api eid k = (polls n eid, StillPolling)"
proof (induction n arbitrary: k)
  case 0
  show ?case by (simp add: polls_0)
next
  case (Suc n)
  from Suc.prems have here: "pending (getStatusForExecutionId api eid k)"
    by (metis add.right_neutral zero_less_Suc)
  from Suc.prems have "\<forall>j<n. pending (getStatusForExecutionId api eid (Suc k + j))"
    by (metis Suc_less_eq add_Suc_shift)
  then have "continueWhenCompleted n api eid (Suc k) = (polls n eid, StillPolling)"
    by (rule Suc.IH)
  with here show ?case
    by (simp add: validateStatus_pending polls_Suc polls_def)
qed


lemma tracker_resolves:
  "(\<forall>j<n. pending (getStatusForExecutionId api eid (k + j))) \<Longrightarrow>
   getStatusForExecutionId api eid (k + n) = Fulfilled None \<Longrightarrow> n < rounds \<Longrightarrow>
   continueWhenCompleted rounds api eid k = (polls (Suc n) eid, Resolved)"
proof (induction n arbitrary: k rounds)
  case 0
  then obtain r where "rounds = Suc r" by (cases rounds) auto
  with 0 show ?case by (simp add: validateStatus_null)
next
  case (Suc n)
  then obtain r where r: "rounds = Suc r" "n < r" by (cases rounds) auto
  from Suc.prems have here: "pending (getStatusForExecutionId api eid k)"
    by (metis add.right_neutral zero_less_Suc)
  from Suc.prems have "\<forall>j<n. pending (getStatusForExecutionId api eid (Suc k + j))"
    by (metis Suc_less_eq add_Suc_shift)
  moreover from Suc.prems have "getStatusForExecutionId api eid (Suc k + n) = Fulfilled None"
    by simp
  ultimately have "continueWhenCompleted r api eid (Suc k) = (polls (Suc n) eid, Resolved)"
    using r(2) by (rule Suc.IH)
  with here r(1) show ?case
    by (simp add: validateStatus_pending polls_Suc polls_def)
qed

lemma tracker_rejected:
  "(\<forall>j<n. pending (getStatusForExecutionId api eid (k + j))) \<Longrightarrow>
   getStatusForExecutionId api eid (k + n) = Rejected \<Longrightarrow> n < rounds \<Longrightarrow>
   continueWhenCompleted rounds api eid k = (polls (Suc n) eid, NeverSettles)"
proof (induction n arbitrary: k rounds)
  case 0
  then obtain r where "rounds = Suc r" by (cases rounds) auto
  with 0 show ?case by (simp add: validateStatus_rejected)
next
  case (Suc n)
  then obtain r where r: "rounds = Suc r" "n < r" by (cases rounds) auto
  from Suc.prems have here: "pending (getStatusForExecutionId api eid k)"
    by (metis add.right_neutral zero_less_Suc)
  from Suc.prems have "\<forall>j<n. pending (getStatusForExecutionId api eid (Suc k + j))"
    by (metis Suc_less_eq add_Suc_shift)
  moreover from Suc.prems have "getStatusForExecutionId api eid (Suc k + n) = Rejected"
    by simp
  ultimately have "continueWhenCompleted r api eid (Suc k) = (polls (Suc n) eid, NeverSettles)"
    using r(2) by (rule Suc.IH)
  with here r(1) show ?case
    by (simp add: validateStatus_pending polls_Suc polls_def)
qed

text \<open>Whatever the gateway answers, the tracker's events are whole rounds of polling.\<close>

lemma tracker_events:
  "\<exists>m\<le>rounds. fst (continueWhenCompleted rounds api eid k) = polls m eid"
proof (induction rounds arbitrary: k)
  case 0
  show ?case by (simp add: polls_0)
next
  case (Suc rounds)
  obtain m where m: "m \<le> rounds"
    "fst (continueWhenCompleted rounds api eid (Suc k)) = polls m eid"
    using Suc.IH by blast
  show ?case
  proof (cases "getStatusForExecutionId api eid k")
    case Rejected
    then have "fst (continueWhenCompleted (Suc rounds) api eid k) = polls 1 eid"
      by (simp add: validateStatus_rejected)
    then show ?thesis by (intro exI[of _ 1]) simp
  next
    case (Fulfilled st)
    show ?thesis
    proof (cases st)
      case None
      with Fulfilled have "fst (continueWhenCompleted (Suc rounds) api eid k) = polls 1 eid"
        by (simp add: validateStatus_null)
      then show ?thesis by (intro exI[of _ 1]) simp
    next
      case (Some v)
      with Fulfilled have "pending (getStatusForExecutionId api eid k)" by simp
      then have "fst (continueWhenCompleted (Suc rounds) api eid k) = polls (Suc m) eid"
        using m(2)
        by (cases "continueWhenCompleted rounds api eid (Suc k)")
           (simp add: validateStatus_pending polls_Suc polls_def)
      with m(1) show ?thesis by (intro exI[of _ "Suc m"]) simp
    qed
  qed
qed

lemma polls_no_status_send: "ev \<in> set (polls n eid) \<Longrightarrow> \<not> is_status ev \<and> \<not> is_send ev"
  by (induction n) (auto simp: polls_Suc polls_0)

lemma enum_value_stop: "enum_value c = lit ''stop'' \<longleftrightarrow> c = STOP"
  by (cases c) simp_all

lemma resolver_cases:
  assumes "generateInstructionsFromPayload p = Some i"
  shows "command i = STOP \<and> expectedState i = None \<or>
         command i \<noteq> STOP \<and> (\<exists>es. expectedState i = Some es)"
  using assms
  by (auto simp: generateInstructionsFromPayload_def split: if_splits)

lemma resolver_ignores_lowspeed:
  "generateInstructionsFromPayload (p\<lparr>lowspeed := b\<rparr>) = generateInstructionsFromPayload p"
  by (simp add: generateInstructionsFromPayload_def)

lemma resolver_None_iff:
  "generateInstructionsFromPayload p = None \<longleftrightarrow> action p \<notin> set action_table"
  by (simp add: generateInstructionsFromPayload_def action_table_def)

lemma buildCommand_never_throws:
  assumes "generateInstructionsFromPayload p = Some i"
  shows "\<exists>c. buildCommand p i = Inr c"
  using resolver_cases[OF assms]
  by (auto simp: buildCommand_def Let_def enum_value_stop)

lemma on_input_unfold:
  assumes "generateInstructionsFromPayload (payload msg) = Some i"
    and "buildCommand (payload msg) i = Inr c"
  shows "on_input rounds this api msg =
    (case execute api (device this) c of
       Rejected \<Rightarrow> ([Status (progress_status i), Execute (device this) c], Unhandled)
     | Fulfilled r \<Rightarrow>
         (case expectedState i of
            None \<Rightarrow> ([Status (progress_status i), Execute (device this) c,
                       Status (terminal_status i), Send msg], Forwarded)
          | Some es \<Rightarrow>
              (case snd (continueWhenCompleted rounds api (execId r) 0) of
                 Resolved \<Rightarrow>
                   ([Status (progress_status i), Execute (device this) c]
                      @ fst (continueWhenCompleted rounds api (execId r) 0)
                      @ [Status (terminal_status i), Send msg], Forwarded)
               | NeverSettles \<Rightarrow>
                   ([Status (progress_status i), Execute (device this) c]
                      @ fst (continueWhenCompleted rounds api (execId r) 0), Unhandled)
               | StillPolling \<Rightarrow>
                   ([Status (progress_status i), Execute (device this) c]
                      @ fst (continueWhenCompleted rounds api (execId r) 0), Tracking))))"
  using assms
  by (simp add: on_input_def progress_status_def terminal_status_def
           split: future.splits option.splits prod.splits tracking.splits)

lemma tracker_no_status_send:
  "ev \<in> set (fst (continueWhenCompleted rounds api eid k)) \<Longrightarrow> \<not> is_status ev \<and> \<not> is_send ev"
  using tracker_events[of rounds api eid k] polls_no_status_send by metis

lemma sends_append: "sends (xs @ ys) = sends xs + sends ys"
  by (induction xs rule: sends.induct) simp_all

lemma sends_none: "(\<forall>ev\<in>set xs. \<not> is_send ev) \<Longrightarrow> sends xs = 0"
  by (induction xs rule: sends.induct) simp_all

lemma tracker_sends: "sends (fst (continueWhenCompleted rounds api eid k)) = 0"
  using tracker_no_status_send [of _ rounds api eid k] by (intro sends_none) blast

subsection \<open>Facts about \<^verbatim>\<open>parseInt\<close>\<close>








lemma parse_examples:
  "parseInt10 (lit ''42'') = Num 42"
  "parseInt10 (lit ''55'') = Num 55"
  "parseInt10 (lit ''12abc'') = Num 12"
  "parseInt10 (lit ''4.9'') = Num 4"
  "parseInt10 (lit ''  -17px'') = Num (- 17)"
  "parseInt10 (lit ''abc'') = NaN"
  "parseInt10 [] = NaN"
  by (simp_all add: parse_defs)

text \<open>
  Beyond \<open>2^53\<close> the value is rounded to the nearest double, on a tie to the even one, and
  a text of 310 digits is an infinity.
\<close>

lemma bitLength_eq: "2 ^ k \<le> n \<Longrightarrow> n < 2 ^ Suc k \<Longrightarrow> bitLength n = Suc k"
proof (induction k arbitrary: n)
  case 0
  then have "n = 1" by simp
  then show ?case by simp
next
  case (Suc k)
  then have "2 ^ k \<le> n div 2" "n div 2 < 2 ^ Suc k" "n \<noteq> 0"
    by auto
  with Suc.IH [of "n div 2"] show ?case
    by (subst bitLength.simps) simp
qed

lemma toNumber_rounds:
  "toNumber 9007199254740993 = Num 9007199254740992"
  "toNumber (- 9007199254740995) = Num (- 9007199254740996)"
proof -
  have a: "bitLength 9007199254740993 = Suc 53"
    by (rule bitLength_eq) simp_all
  have b: "bitLength 9007199254740995 = Suc 53"
    by (rule bitLength_eq) simp_all
  show "toNumber 9007199254740993 = Num 9007199254740992"
    by (simp add: toNumber_def roundToDouble_def a Let_def del: bitLength.simps)
  show "toNumber (- 9007199254740995) = Num (- 9007199254740996)"
    by (simp add: toNumber_def roundToDouble_def b Let_def del: bitLength.simps)
qed

lemma toNumber_overflows: "toNumber (10 ^ 309) = PosInfinity"
proof -
  have a: "bitLength (10 ^ 309) = Suc 1026"
    by (rule bitLength_eq) simp_all
  have n: "nat \<bar>10 ^ 309\<bar> = 10 ^ 309"
    by simp
  show ?thesis
    unfolding toNumber_def roundToDouble_def n a Let_def
    by (simp del: bitLength.simps)
qed

section \<open>Properties of the resolver, the tracker and the handler\<close>

text \<open>
  Claim C1. Whatever the gateway answers, the events of the tracker are whole rounds, each
  a wait of 2500 ms followed by one status call. While the status calls report the
  execution pending, the tracker is still polling after any number \<open>n\<close> of rounds: it has
  no retry limit and no timeout. When the call after \<open>n\<close> pending answers reports
  \<^verbatim>\<open>null\<close>, the tracker resolves after exactly \<open>n + 1\<close> status calls and \<open>n + 1\<close> waits.
\<close>

theorem tracker_polls_until_absent:
  "(\<exists>m\<le>rounds. fst (continueWhenCompleted rounds api eid k) = polls m eid
       \<and> probes (polls m eid) = m \<and> waited (polls m eid) = m * 2500)
   \<and> ((\<forall>j<n. pending (getStatusForExecutionId api eid (k + j))) \<longrightarrow>
         continueWhenCompleted n api eid k = (polls n eid, StillPolling)
         \<and> (getStatusForExecutionId api eid (k + n) = Fulfilled None \<and> n < rounds \<longrightarrow>
              continueWhenCompleted rounds api eid k = (polls (Suc n) eid, Resolved)))"
proof -
  have "\<exists>m\<le>rounds. fst (continueWhenCompleted rounds api eid k) = polls m eid
       \<and> probes (polls m eid) = m \<and> waited (polls m eid) = m * 2500"
    using tracker_events [of rounds api eid k] by (simp add: probes_polls waited_polls)
  then show ?thesis
    by (simp add: tracker_still_polling tracker_resolves)
qed

text \<open>
  Pending twice, then absent: after two rounds the tracker is still polling; it resolves
  with the third status call, 7500 ms of waiting behind it.
\<close>

theorem tracker_polls_until_absent_witness:
  "pending (getStatusForExecutionId gw_busy_twice (lit ''e1'') 0)
   \<and> pending (getStatusForExecutionId gw_busy_twice (lit ''e1'') 1)
   \<and> getStatusForExecutionId gw_busy_twice (lit ''e1'') 2 = Fulfilled None
   \<and> continueWhenCompleted 2 gw_busy_twice (lit ''e1'') 0 =
       ([SetTimeout 2500, GetStatus (lit ''e1''), SetTimeout 2500, GetStatus (lit ''e1'')], StillPolling)
   \<and> continueWhenCompleted 3 gw_busy_twice (lit ''e1'') 0 =
       ([SetTimeout 2500, GetStatus (lit ''e1''), SetTimeout 2500, GetStatus (lit ''e1''),
         SetTimeout 2500, GetStatus (lit ''e1'')], Resolved)
   \<and> waited (fst (continueWhenCompleted 3 gw_busy_twice (lit ''e1'') 0)) = 7500"
proof -
  have h0: "pending (getStatusForExecutionId gw_busy_twice (lit ''e1'') 0)"
    and h1: "pending (getStatusForExecutionId gw_busy_twice (lit ''e1'') 1)"
    and z: "getStatusForExecutionId gw_busy_twice (lit ''e1'') 2 = Fulfilled None"
    by (simp_all add: gw_busy_twice_def)
  have h: "\<forall>j<2. pending (getStatusForExecutionId gw_busy_twice (lit ''e1'') (0 + j))"
    by (simp add: gw_busy_twice_def)
  have p2: "polls 2 (lit ''e1'') = [SetTimeout 2500, GetStatus (lit ''e1''), SetTimeout 2500, GetStatus (lit ''e1'')]"
    by (simp add: polls_def STATE_VALIDATOR_POLLING_DELAY_def numeral_2_eq_2)
  have p3: "polls (Suc 2) (lit ''e1'') = [SetTimeout 2500, GetStatus (lit ''e1''), SetTimeout 2500,
      GetStatus (lit ''e1''), SetTimeout 2500, GetStatus (lit ''e1'')]"
    by (simp add: polls_def STATE_VALIDATOR_POLLING_DELAY_def numeral_2_eq_2)
  have z': "getStatusForExecutionId gw_busy_twice (lit ''e1'') (0 + 2) = Fulfilled None"
    and lt: "(2::nat) < 3"
    by (simp_all add: gw_busy_twice_def)
  from tracker_polls_until_absent [of 3 gw_busy_twice "(lit ''e1'')" 0 2] h z' lt
  have a: "continueWhenCompleted 2 gw_busy_twice (lit ''e1'') 0 = (polls 2 (lit ''e1''), StillPolling)"
    and b: "continueWhenCompleted 3 gw_busy_twice (lit ''e1'') 0 = (polls (Suc 2) (lit ''e1''), Resolved)"
    by blast+
  have w: "waited (fst (continueWhenCompleted 3 gw_busy_twice (lit ''e1'') 0)) = 7500"
    unfolding b p3 by simp
  from h0 h1 z a b w show ?thesis
    unfolding p2 p3 by (intro conjI)
qed

text \<open>
  Claim C2. For every payload the resolver follows the mapping table: each of the eight
  actions gives the command, the parameters, the expected state and the two labels of
  its row, the numbers being the texts of the payload as \<^verbatim>\<open>parseInt\<close> reads them, and every
  other action gives \<^verbatim>\<open>null\<close>. In particular \<^verbatim>\<open>open\<close> gives OPEN, open at position 0,
  \<^verbatim>\<open>Opening...\<close> and \<^verbatim>\<open>Open\<close>, and \<^verbatim>\<open>customPosition\<close> with the position text \<^verbatim>\<open>42\<close> gives
  SET_CLOSURE, the parameters [42], open at position 42, \<^verbatim>\<open>Setting to 42\<close> and
  \<^verbatim>\<open>Set to 42\<close>.
\<close>

theorem resolver_conforms_to_table:
  "(action p = lit ''open'' \<longrightarrow>
      generateInstructionsFromPayload p =
        Some \<lparr>command = OPEN, parameters = None,
          expectedState = Some \<lparr>st_open = Some True, st_position = Some (Num 0),
            st_orientation = None, st_repetitions = None\<rparr>,
          labels = \<lparr>label_done = lit ''Open'', label_progress = lit ''Opening...''\<rparr>\<rparr>)
   \<and> (action p = lit ''close'' \<longrightarrow>
      generateInstructionsFromPayload p =
        Some \<lparr>command = CLOSE, parameters = None,
          expectedState = Some \<lparr>st_open = Some False, st_position = Some (Num 100),
            st_orientation = None, st_repetitions = None\<rparr>,
          labels = \<lparr>label_done = lit ''Closed'', label_progress = lit ''Closing...''\<rparr>\<rparr>)
   \<and> (action p = lit ''customPosition'' \<longrightarrow>
      generateInstructionsFromPayload p =
        Some \<lparr>command = SET_CLOSURE, parameters = Some [parseInt10 (position p)],
          expectedState = Some \<lparr>st_open = Some True,
            st_position = Some (parseInt10 (position p)),
            st_orientation = None, st_repetitions = None\<rparr>,
          labels = \<lparr>label_done = lit ''Set to '' @ position p,
            label_progress = lit ''Setting to '' @ position p\<rparr>\<rparr>)
   \<and> (action p = lit ''customRotation'' \<or> action p = lit ''customOrientation'' \<longrightarrow>
      generateInstructionsFromPayload p =
        Some \<lparr>command = ROTATION, parameters = Some [parseInt10 (orientation p)],
          expectedState = Some \<lparr>st_open = None, st_position = None,
            st_orientation = Some (parseInt10 (orientation p)), st_repetitions = None\<rparr>,
          labels = \<lparr>label_done = lit ''Rotated to '' @ orientation p,
            label_progress = lit ''Rotating to '' @ orientation p @ lit ''...''\<rparr>\<rparr>)
   \<and> (action p = lit ''customClosureAndOrientation'' \<longrightarrow>
      generateInstructionsFromPayload p =
        Some \<lparr>command = SET_CLOSURE_AND_ORIENTATION,
          parameters = Some [parseInt10 (position p), parseInt10 (orientation p)],
          expectedState = Some \<lparr>st_open = None,
            st_position = Some (parseInt10 (position p)),
            st_orientation = Some (parseInt10 (orientation p)), st_repetitions = None\<rparr>,
          labels = \<lparr>label_done = lit ''Set to position:'' @ position p
              @ lit '', orientation:'' @ orientation p,
            label_progress = lit ''Moving to position:'' @ position p
              @ lit '', orientation:'' @ orientation p @ lit ''...''\<rparr>\<rparr>)
   \<and> (action p = lit ''stop'' \<longrightarrow>
      generateInstructionsFromPayload p =
        Some \<lparr>command = STOP, parameters = None, expectedState = None,
          labels = \<lparr>label_done = lit ''Stopped'', label_progress = lit ''Stopping...''\<rparr>\<rparr>)
   \<and> (action p = lit ''wink'' \<longrightarrow>
      generateInstructionsFromPayload p =
        Some \<lparr>command = WINK, parameters = Some [parseInt10 (repetitions p)],
          expectedState = Some \<lparr>st_open = None, st_position = None, st_orientation = None,
            st_repetitions = Some (parseInt10 (repetitions p))\<rparr>,
          labels = \<lparr>label_done = lit ''Stopped'',
            label_progress = lit ''Winking '' @ repetitions p @ lit '' time(s)''\<rparr>\<rparr>)
   \<and> (action p \<notin> set action_table \<longrightarrow> generateInstructionsFromPayload p = None)
   \<and> (action p = lit ''customPosition'' \<and> position p = lit ''42'' \<longrightarrow>
      generateInstructionsFromPayload p =
        Some \<lparr>command = SET_CLOSURE, parameters = Some [Num 42],
          expectedState = Some \<lparr>st_open = Some True, st_position = Some (Num 42),
            st_orientation = None, st_repetitions = None\<rparr>,
          labels = \<lparr>label_done = lit ''Set to 42'',
            label_progress = lit ''Setting to 42''\<rparr>\<rparr>)"
proof -
  have none: "action p \<notin> set action_table \<longrightarrow> generateInstructionsFromPayload p = None"
    by (simp add: resolver_None_iff)
  have example: "action p = lit ''customPosition'' \<and> position p = lit ''42'' \<longrightarrow>
      generateInstructionsFromPayload p =
        Some \<lparr>command = SET_CLOSURE, parameters = Some [Num 42],
          expectedState = Some \<lparr>st_open = Some True, st_position = Some (Num 42),
            st_orientation = None, st_repetitions = None\<rparr>,
          labels = \<lparr>label_done = lit ''Set to 42'',
            label_progress = lit ''Setting to 42''\<rparr>\<rparr>"
    by (simp add: generateInstructionsFromPayload_def parse_examples)
  show ?thesis
    by (intro conjI none example) (simp_all add: generateInstructionsFromPayload_def)
qed

text \<open>
  Every row of the table at the numeric text \<^verbatim>\<open>42\<close>, and the action \<^verbatim>\<open>bogus\<close>.
\<close>

theorem resolver_conforms_to_table_witness:
  "generateInstructionsFromPayload (payload_of (lit ''open'') (lit ''42'') False) =
        Some \<lparr>command = OPEN, parameters = None,
          expectedState = Some \<lparr>st_open = Some True, st_position = Some (Num 0),
            st_orientation = None, st_repetitions = None\<rparr>,
          labels = \<lparr>label_done = lit ''Open'', label_progress = lit ''Opening...''\<rparr>\<rparr>
   \<and> generateInstructionsFromPayload (payload_of (lit ''close'') (lit ''42'') False) =
        Some \<lparr>command = CLOSE, parameters = None,
          expectedState = Some \<lparr>st_open = Some False, st_position = Some (Num 100),
            st_orientation = None, st_repetitions = None\<rparr>,
          labels = \<lparr>label_done = lit ''Closed'', label_progress = lit ''Closing...''\<rparr>\<rparr>
   \<and> generateInstructionsFromPayload (payload_of (lit ''customPosition'') (lit ''42'') False) =
        Some \<lparr>command = SET_CLOSURE, parameters = Some [Num 42],
          expectedState = Some \<lparr>st_open = Some True, st_position = Some (Num 42),
            st_orientation = None, st_repetitions = None\<rparr>,
          labels = \<lparr>label_done = lit ''Set to 42'', label_progress = lit ''Setting to 42''\<rparr>\<rparr>
   \<and> generateInstructionsFromPayload (payload_of (lit ''customRotation'') (lit ''42'') False) =
        Some \<lparr>command = ROTATION, parameters = Some [Num 42],
          expectedState = Some \<lparr>st_open = None, st_position = None,
            st_orientation = Some (Num 42), st_repetitions = None\<rparr>,
          labels = \<lparr>label_done = lit ''Rotated to 42'',
            label_progress = lit ''Rotating to 42...''\<rparr>\<rparr>
   \<and> generateInstructionsFromPayload (payload_of (lit ''customOrientation'') (lit ''42'') False) =
        Some \<lparr>command = ROTATION, parameters = Some [Num 42],
          expectedState = Some \<lparr>st_open = None, st_position = None,
            st_orientation = Some (Num 42), st_repetitions = None\<rparr>,
          labels = \<lparr>label_done = lit ''Rotated to 42'',
            label_progress = lit ''Rotating to 42...''\<rparr>\<rparr>
   \<and> generateInstructionsFromPayload (payload_of (lit ''customClosureAndOrientation'') (lit ''42'') False) =
        Some \<lparr>command = SET_CLOSURE_AND_ORIENTATION, parameters = Some [Num 42, Num 42],
          expectedState = Some \<lparr>st_open = None, st_position = Some (Num 42),
            st_orientation = Some (Num 42), st_repetitions = None\<rparr>,
          labels = \<lparr>label_done = lit ''Set to position:42, orientation:42'',
            label_progress = lit ''Moving to position:42, orientation:42...''\<rparr>\<rparr>
   \<and> generateInstructionsFromPayload (payload_of (lit ''stop'') (lit ''42'') False) =
        Some \<lparr>command = STOP, parameters = None, expectedState = None,
          labels = \<lparr>label_done = lit ''Stopped'', label_progress = lit ''Stopping...''\<rparr>\<rparr>
   \<and> generateInstructionsFromPayload (payload_of (lit ''wink'') (lit ''42'') False) =
        Some \<lparr>command = WINK, parameters = Some [Num 42],
          expectedState = Some \<lparr>st_open = None, st_position = None, st_orientation = None,
            st_repetitions = Some (Num 42)\<rparr>,
          labels = \<lparr>label_done = lit ''Stopped'',
            label_progress = lit ''Winking 42 time(s)''\<rparr>\<rparr>
   \<and> action (payload_of (lit ''bogus'') (lit ''42'') False) \<notin> set action_table
   \<and> generateInstructionsFromPayload (payload_of (lit ''bogus'') (lit ''42'') False) = None"
proof -
  have f: "action (payload_of a n s) = a" "position (payload_of a n s) = n"
    "orientation (payload_of a n s) = n" "repetitions (payload_of a n s) = n" for a n s
    by (simp_all add: payload_of_def)
  have b: "lit ''bogus'' \<notin> set action_table"
    by (simp add: action_table_def)
  have r1: "generateInstructionsFromPayload (payload_of (lit ''open'') (lit ''42'') False) =
        Some \<lparr>command = OPEN, parameters = None,
          expectedState = Some \<lparr>st_open = Some True, st_position = Some (Num 0),
            st_orientation = None, st_repetitions = None\<rparr>,
          labels = \<lparr>label_done = lit ''Open'', label_progress = lit ''Opening...''\<rparr>\<rparr>"
    using resolver_conforms_to_table [of "payload_of (lit ''open'') (lit ''42'') False"]
    by (simp add: f parse_examples)
  have r2: "generateInstructionsFromPayload (payload_of (lit ''close'') (lit ''42'') False) =
        Some \<lparr>command = CLOSE, parameters = None,
          expectedState = Some \<lparr>st_open = Some False, st_position = Some (Num 100),
            st_orientation = None, st_repetitions = None\<rparr>,
          labels = \<lparr>label_done = lit ''Closed'', label_progress = lit ''Closing...''\<rparr>\<rparr>"
    using resolver_conforms_to_table [of "payload_of (lit ''close'') (lit ''42'') False"]
    by (simp add: f parse_examples)
  have r3: "generateInstructionsFromPayload (payload_of (lit ''customPosition'') (lit ''42'') False) =
        Some \<lparr>command = SET_CLOSURE, parameters = Some [Num 42],
          expectedState = Some \<lparr>st_open = Some True, st_position = Some (Num 42),
            st_orientation = None, st_repetitions = None\<rparr>,
          labels = \<lparr>label_done = lit ''Set to 42'', label_progress = lit ''Setting to 42''\<rparr>\<rparr>"
    using resolver_conforms_to_table [of "payload_of (lit ''customPosition'') (lit ''42'') False"]
    by (simp add: f parse_examples)
  have r4: "generateInstructionsFromPayload (payload_of (lit ''customRotation'') (lit ''42'') False) =
        Some \<lparr>command = ROTATION, parameters = Some [Num 42],
          expectedState = Some \<lparr>st_open = None, st_position = None,
            st_orientation = Some (Num 42), st_repetitions = None\<rparr>,
          labels = \<lparr>label_done = lit ''Rotated to 42'',
            label_progress = lit ''Rotating to 42...''\<rparr>\<rparr>"
    using resolver_conforms_to_table [of "payload_of (lit ''customRotation'') (lit ''42'') False"]
    by (simp add: f parse_examples)
  have r5: "generateInstructionsFromPayload (payload_of (lit ''customOrientation'') (lit ''42'') False) =
        Some \<lparr>command = ROTATION, parameters = Some [Num 42],
          expectedState = Some \<lparr>st_open = None, st_position = None,
            st_orientation = Some (Num 42), st_repetitions = None\<rparr>,
          labels = \<lparr>label_done = lit ''Rotated to 42'',
            label_progress = lit ''Rotating to 42...''\<rparr>\<rparr>"
    using resolver_conforms_to_table [of "payload_of (lit ''customOrientation'') (lit ''42'') False"]
    by (simp add: f parse_examples)
  have r6: "generateInstructionsFromPayload (payload_of (lit ''customClosureAndOrientation'') (lit ''42'') False) =
        Some \<lparr>command = SET_CLOSURE_AND_ORIENTATION, parameters = Some [Num 42, Num 42],
          expectedState = Some \<lparr>st_open = None, st_position = Some (Num 42),
            st_orientation = Some (Num 42), st_repetitions = None\<rparr>,
          labels = \<lparr>label_done = lit ''Set to position:42, orientation:42'',
            label_progress = lit ''Moving to position:42, orientation:42...''\<rparr>\<rparr>"
    using resolver_conforms_to_table [of "payload_of (lit ''customClosureAndOrientation'') (lit ''42'') False"]
    by (simp add: f parse_examples)
  have r7: "generateInstructionsFromPayload (payload_of (lit ''stop'') (lit ''42'') False) =
        Some \<lparr>command = STOP, parameters = None, expectedState = None,
          labels = \<lparr>label_done = lit ''Stopped'', label_progress = lit ''Stopping...''\<rparr>\<rparr>"
    using resolver_conforms_to_table [of "payload_of (lit ''stop'') (lit ''42'') False"]
    by (simp add: f parse_examples)
  have r8: "generateInstructionsFromPayload (payload_of (lit ''wink'') (lit ''42'') False) =
        Some \<lparr>command = WINK, parameters = Some [Num 42],
          expectedState = Some \<lparr>st_open = None, st_position = None, st_orientation = None,
            st_repetitions = Some (Num 42)\<rparr>,
          labels = \<lparr>label_done = lit ''Stopped'',
            label_progress = lit ''Winking 42 time(s)''\<rparr>\<rparr>"
    using resolver_conforms_to_table [of "payload_of (lit ''wink'') (lit ''42'') False"]
    by (simp add: f parse_examples)
  have r9: "generateInstructionsFromPayload (payload_of (lit ''bogus'') (lit ''42'') False) = None"
    using resolver_conforms_to_table [of "payload_of (lit ''bogus'') (lit ''42'') False"] b
    by (simp add: f)
  have b': "action (payload_of (lit ''bogus'') (lit ''42'') False) \<notin> set action_table"
    using b by (simp add: f)
  from r1 r2 r3 r4 r5 r6 r7 r8 b' r9 show ?thesis
    by (intro conjI)
qed

text \<open>
  Claim C3. The action \<^verbatim>\<open>stop\<close> resolves to the command STOP with the labels
  \<^verbatim>\<open>Stopping...\<close> and \<^verbatim>\<open>Stopped\<close> and no expected state. The handler then never sets
  the polling timer and never asks the gateway for a status, whatever the gateway and
  the low-speed flag; once the command is accepted it shows the status \<^verbatim>\<open>Unknown\<close> and
  forwards the message.
\<close>

theorem stop_is_never_tracked:
  assumes "action (payload msg) = lit ''stop''"
  shows "generateInstructionsFromPayload (payload msg) =
           Some \<lparr>command = STOP, parameters = None, expectedState = None,
             labels = \<lparr>label_done = lit ''Stopped'', label_progress = lit ''Stopping...''\<rparr>\<rparr>
         \<and> probes (fst (on_input rounds this api msg)) = 0
         \<and> waited (fst (on_input rounds this api msg)) = 0
         \<and> (\<forall>r. execute api (device this) \<lparr>name = lit ''stop'', params = []\<rparr> = Fulfilled r \<longrightarrow>
              on_input rounds this api msg =
                ([Status \<lparr>fill = lit ''yellow'', shape = lit ''dot'', status_text = lit ''Stopping...''\<rparr>,
                  Execute (device this) \<lparr>name = lit ''stop'', params = []\<rparr>,
                  Status \<lparr>fill = lit ''grey'', shape = lit ''dot'', status_text = lit ''Unknown''\<rparr>,
                  Send msg], Forwarded))"
  using assms
  by (simp add: generateInstructionsFromPayload_def on_input_def buildCommand_def Let_def
        split: future.splits)

text \<open>
  A stop message with the low-speed flag set, on a gateway that accepts the command.
\<close>

theorem stop_is_never_tracked_witness:
  "action (payload (msg_of (lit ''stop'') [] True)) = lit ''stop''
   \<and> execute gw_busy_twice (device node0) \<lparr>name = lit ''stop'', params = []\<rparr>
        = Fulfilled \<lparr>execId = lit ''e1''\<rparr>
   \<and> probes (fst (on_input 5 node0 gw_busy_twice (msg_of (lit ''stop'') [] True))) = 0
   \<and> waited (fst (on_input 5 node0 gw_busy_twice (msg_of (lit ''stop'') [] True))) = 0
   \<and> on_input 5 node0 gw_busy_twice (msg_of (lit ''stop'') [] True) =
        ([Status \<lparr>fill = lit ''yellow'', shape = lit ''dot'', status_text = lit ''Stopping...''\<rparr>,
          Execute (device node0) \<lparr>name = lit ''stop'', params = []\<rparr>,
          Status \<lparr>fill = lit ''grey'', shape = lit ''dot'', status_text = lit ''Unknown''\<rparr>,
          Send (msg_of (lit ''stop'') [] True)], Forwarded)"
proof -
  have a: "action (payload (msg_of (lit ''stop'') [] True)) = lit ''stop''"
    by (simp add: msg_of_def payload_of_def)
  have e: "execute gw_busy_twice (device node0) \<lparr>name = lit ''stop'', params = []\<rparr>
        = Fulfilled \<lparr>execId = lit ''e1''\<rparr>"
    by (simp add: gw_busy_twice_def)
  from stop_is_never_tracked [OF a, of 5 node0 gw_busy_twice] a e show ?thesis
    by simp
qed

text \<open>
  Claim C4 as stated fails: with low speed and the malformed position text \<^verbatim>\<open>abc\<close> the
  resolved position is the not-a-number value, and the wire parameters are [0].
\<close>

theorem lowspeed_malformed_position_counterexample:
  "lowspeed (payload_of (lit ''customPosition'') (lit ''abc'') True)
   \<and> generateInstructionsFromPayload (payload_of (lit ''customPosition'') (lit ''abc'') True) =
       Some \<lparr>command = SET_CLOSURE, parameters = Some [NaN],
         expectedState = Some \<lparr>st_open = Some True, st_position = Some NaN,
           st_orientation = None, st_repetitions = None\<rparr>,
         labels = \<lparr>label_done = lit ''Set to abc'', label_progress = lit ''Setting to abc''\<rparr>\<rparr>
   \<and> buildCommand (payload_of (lit ''customPosition'') (lit ''abc'') True)
       \<lparr>command = SET_CLOSURE, parameters = Some [NaN],
         expectedState = Some \<lparr>st_open = Some True, st_position = Some NaN,
           st_orientation = None, st_repetitions = None\<rparr>,
         labels = \<lparr>label_done = lit ''Set to abc'', label_progress = lit ''Setting to abc''\<rparr>\<rparr>
       = Inr \<lparr>name = lit ''position_low_speed'', params = [Num 0]\<rparr>
   \<and> [Num 0] \<noteq> [NaN]"
proof -
  have n: "parseInt10 (lit ''abc'') = NaN"
    by (simp add: parse_defs)
  show ?thesis
    by (simp add: generateInstructionsFromPayload_def buildCommand_def payload_of_def n
          targetPosition_def)
qed

text \<open>
  Claim C4, amended. With the low-speed flag set and a resolved command other than STOP, the
  command sent is \<^verbatim>\<open>position_low_speed\<close> with one parameter: the resolved position, or 0
  when the expected state has no position or its position is the not-a-number value. The
  instruction is the one the resolver gives without the flag, and the statuses shown
  carry its labels.
\<close>

theorem lowspeed_override_replaces_command:
  assumes "lowspeed (payload msg)"
    and "generateInstructionsFromPayload (payload msg) = Some i"
    and "command i \<noteq> STOP"
  shows "\<exists>es c. expectedState i = Some es
    \<and> c = \<lparr>name = lit ''position_low_speed'',
            params = [case st_position es of None \<Rightarrow> Num 0 | Some NaN \<Rightarrow> Num 0
                      | Some (Num n) \<Rightarrow> Num n | Some PosInfinity \<Rightarrow> PosInfinity
                      | Some NegInfinity \<Rightarrow> NegInfinity]\<rparr>
    \<and> buildCommand (payload msg) i = Inr c
    \<and> generateInstructionsFromPayload ((payload msg)\<lparr>lowspeed := False\<rparr>) = Some i
    \<and> (\<exists>rest. fst (on_input rounds this api msg)
           = Status (progress_status i) # Execute (device this) c # rest
         \<and> (snd (on_input rounds this api msg) = Forwarded \<longrightarrow>
              (\<exists>mid. rest = mid @ [Status \<lparr>fill = lit ''green'', shape = lit ''dot'',
                 status_text = label_done (labels i)\<rparr>, Send msg])))"
proof -
  from resolver_cases [OF assms(2)] assms(3) obtain es where es: "expectedState i = Some es"
    by blast
  define c where "c = \<lparr>name = lit ''position_low_speed'',
            params = [case st_position es of None \<Rightarrow> Num 0 | Some NaN \<Rightarrow> Num 0
                      | Some (Num n) \<Rightarrow> Num n | Some PosInfinity \<Rightarrow> PosInfinity
                      | Some NegInfinity \<Rightarrow> NegInfinity]\<rparr>"
  have b: "buildCommand (payload msg) i = Inr c"
    using assms(1,3) es
    by (simp add: buildCommand_def Let_def enum_value_stop targetPosition_def c_def
          split: option.splits jsnum.splits)
  have r: "generateInstructionsFromPayload ((payload msg)\<lparr>lowspeed := False\<rparr>) = Some i"
    using assms(2) by (simp add: resolver_ignores_lowspeed)
  have ts: "terminal_status i = \<lparr>fill = lit ''green'', shape = lit ''dot'',
                 status_text = label_done (labels i)\<rparr>"
    using es by (simp add: terminal_status_def)
  have t: "\<exists>rest. fst (on_input rounds this api msg)
           = Status (progress_status i) # Execute (device this) c # rest
         \<and> (snd (on_input rounds this api msg) = Forwarded \<longrightarrow>
              (\<exists>mid. rest = mid @ [Status \<lparr>fill = lit ''green'', shape = lit ''dot'',
                 status_text = label_done (labels i)\<rparr>, Send msg]))"
    using es ts
    by (simp add: on_input_unfold [OF assms(2) b] split: future.splits tracking.splits)
  from es c_def b r t show ?thesis by blast
qed

text \<open>
  Low speed to position 55 on a gateway that reports absence with the third status call.
\<close>

theorem lowspeed_override_replaces_command_witness:
  "lowspeed (payload (msg_of (lit ''customPosition'') (lit ''55'') True))
   \<and> generateInstructionsFromPayload (payload (msg_of (lit ''customPosition'') (lit ''55'') True)) =
       Some \<lparr>command = SET_CLOSURE, parameters = Some [Num 55],
         expectedState = Some \<lparr>st_open = Some True, st_position = Some (Num 55),
           st_orientation = None, st_repetitions = None\<rparr>,
         labels = \<lparr>label_done = lit ''Set to 55'', label_progress = lit ''Setting to 55''\<rparr>\<rparr>
   \<and> buildCommand (payload (msg_of (lit ''customPosition'') (lit ''55'') True))
       \<lparr>command = SET_CLOSURE, parameters = Some [Num 55],
         expectedState = Some \<lparr>st_open = Some True, st_position = Some (Num 55),
           st_orientation = None, st_repetitions = None\<rparr>,
         labels = \<lparr>label_done = lit ''Set to 55'', label_progress = lit ''Setting to 55''\<rparr>\<rparr>
       = Inr \<lparr>name = lit ''position_low_speed'', params = [Num 55]\<rparr>
   \<and> snd (on_input 5 node0 gw_busy_twice (msg_of (lit ''customPosition'') (lit ''55'') True)) = Forwarded
   \<and> (\<exists>mid. fst (on_input 5 node0 gw_busy_twice (msg_of (lit ''customPosition'') (lit ''55'') True)) =
         Status \<lparr>fill = lit ''yellow'', shape = lit ''dot'', status_text = lit ''Setting to 55''\<rparr>
         # Execute (device node0) \<lparr>name = lit ''position_low_speed'', params = [Num 55]\<rparr>
         # mid @ [Status \<lparr>fill = lit ''green'', shape = lit ''dot'', status_text = lit ''Set to 55''\<rparr>,
                  Send (msg_of (lit ''customPosition'') (lit ''55'') True)])"
proof -
  let ?m = "msg_of (lit ''customPosition'') (lit ''55'') True"
  let ?es = "\<lparr>st_open = Some True, st_position = Some (Num 55),
           st_orientation = None, st_repetitions = None\<rparr>"
  let ?i = "\<lparr>command = SET_CLOSURE, parameters = Some [Num 55], expectedState = Some ?es,
         labels = \<lparr>label_done = lit ''Set to 55'', label_progress = lit ''Setting to 55''\<rparr>\<rparr>"
  let ?c = "\<lparr>name = lit ''position_low_speed'', params = [Num 55]\<rparr>"
  have n: "parseInt10 (lit ''55'') = Num 55"
    by (simp add: parse_defs)
  have l: "lowspeed (payload ?m)"
    by (simp add: msg_of_def payload_of_def)
  have g: "generateInstructionsFromPayload (payload ?m) = Some ?i"
    by (simp add: generateInstructionsFromPayload_def msg_of_def payload_of_def n)
  have s: "command ?i \<noteq> STOP"
    by simp
  have ps: "progress_status ?i = \<lparr>fill = lit ''yellow'', shape = lit ''dot'', status_text = lit ''Setting to 55''\<rparr>"
    by (simp add: progress_status_def)
  from lowspeed_override_replaces_command [OF l g s, of 5 node0 gw_busy_twice]
  have b: "buildCommand (payload ?m) ?i = Inr ?c"
    and t: "\<exists>rest. fst (on_input 5 node0 gw_busy_twice ?m)
           = Status (progress_status ?i) # Execute (device node0) ?c # rest
         \<and> (snd (on_input 5 node0 gw_busy_twice ?m) = Forwarded \<longrightarrow>
              (\<exists>mid. rest = mid @ [Status \<lparr>fill = lit ''green'', shape = lit ''dot'',
                 status_text = lit ''Set to 55''\<rparr>, Send ?m]))"
    by auto
  have x: "execute gw_busy_twice (device node0) ?c = Fulfilled \<lparr>execId = lit ''e1''\<rparr>"
    by (simp add: gw_busy_twice_def)
  have "\<forall>j<2. pending (getStatusForExecutionId gw_busy_twice (lit ''e1'') (0 + j))"
    and "getStatusForExecutionId gw_busy_twice (lit ''e1'') (0 + 2) = Fulfilled None"
    by (simp_all add: gw_busy_twice_def)
  then have "continueWhenCompleted 5 gw_busy_twice (lit ''e1'') 0 = (polls (Suc 2) (lit ''e1''), Resolved)"
    by (rule tracker_resolves) simp
  then have f: "snd (on_input 5 node0 gw_busy_twice ?m) = Forwarded"
    using x by (simp add: on_input_unfold [OF g b])
  from t f have e: "\<exists>mid. fst (on_input 5 node0 gw_busy_twice ?m) =
         Status (progress_status ?i) # Execute (device node0) ?c
         # mid @ [Status \<lparr>fill = lit ''green'', shape = lit ''dot'', status_text = lit ''Set to 55''\<rparr>,
                  Send ?m]"
    by auto
  from l g b f e show ?thesis
    unfolding ps by (intro conjI)
qed

text \<open>
  Claim C5 as stated fails: on a gateway that rejects the command, an invocation with the
  recognized action \<^verbatim>\<open>open\<close> forwards the message zero times.
\<close>

theorem forward_exactly_once_counterexample:
  "action (payload (msg_of (lit ''open'') [] False)) \<in> set action_table
   \<and> on_input 5 node0 gw_execute_fails (msg_of (lit ''open'') [] False) =
       ([Status \<lparr>fill = lit ''yellow'', shape = lit ''dot'', status_text = lit ''Opening...''\<rparr>,
         Execute (device node0) \<lparr>name = lit ''open'', params = []\<rparr>], Unhandled)
   \<and> sends (fst (on_input 5 node0 gw_execute_fails (msg_of (lit ''open'') [] False))) = 0"
  by (simp add: on_input_def generateInstructionsFromPayload_def buildCommand_def
        msg_of_def payload_of_def gw_execute_fails_def action_table_def)

text \<open>
  Claim C5, amended. For an invocation with a recognized action the progress status is the
  first event. The message is forwarded at most once. It is forwarded exactly when the
  command is accepted and the instruction has no expected state or the tracker resolves;
  then the terminal status and the forward are the last two events, in this order, and
  no other status or forward lies between the progress status and them. Otherwise no
  terminal status is shown and nothing is forwarded.
\<close>

theorem progress_then_terminal_then_forward:
  assumes "generateInstructionsFromPayload (payload msg) = Some i"
  shows "\<exists>rest. fst (on_input rounds this api msg) = Status (progress_status i) # rest
    \<and> (snd (on_input rounds this api msg) = Forwarded \<longrightarrow>
         (\<exists>mid. rest = mid @ [Status (terminal_status i), Send msg]
            \<and> (\<forall>ev\<in>set mid. \<not> is_status ev \<and> \<not> is_send ev))
         \<and> sends (fst (on_input rounds this api msg)) = 1)
    \<and> (snd (on_input rounds this api msg) \<noteq> Forwarded \<longrightarrow>
         (\<forall>ev\<in>set rest. \<not> is_status ev \<and> \<not> is_send ev)
         \<and> sends (fst (on_input rounds this api msg)) = 0)
    \<and> (snd (on_input rounds this api msg) = Forwarded \<longleftrightarrow>
         (\<exists>c r. buildCommand (payload msg) i = Inr c
            \<and> execute api (device this) c = Fulfilled r
            \<and> (expectedState i = None
                 \<or> snd (continueWhenCompleted rounds api (execId r) 0) = Resolved)))"
proof -
  obtain c where c: "buildCommand (payload msg) i = Inr c"
    using buildCommand_never_throws [OF assms] by blast
  note u = on_input_unfold [OF assms c, of rounds this api]
  show ?thesis
  proof (cases "execute api (device this) c")
    case Rejected
    with u c show ?thesis by simp
  next
    case (Fulfilled r)
    show ?thesis
    proof (cases "expectedState i")
      case None
      with u c Fulfilled show ?thesis by simp
    next
      case (Some es)
      let ?t = "continueWhenCompleted rounds api (execId r) 0"
      have quiet: "\<forall>ev\<in>set (fst ?t). \<not> is_status ev \<and> \<not> is_send ev"
        using tracker_no_status_send by blast
      have zero: "sends (fst ?t) = 0"
        by (rule tracker_sends)
      show ?thesis
      proof (cases "snd ?t")
        case Resolved
        with u c Fulfilled Some quiet zero show ?thesis
          by (simp add: sends_append)
      next
        case NeverSettles
        with u c Fulfilled Some quiet zero show ?thesis
          by (simp add: sends_append)
      next
        case StillPolling
        with u c Fulfilled Some quiet zero show ?thesis
          by (simp add: sends_append)
      qed
    qed
  qed
qed

text \<open>
  An open message on a gateway that reports absence with the third status call, and on
  one that rejects the command.
\<close>

theorem progress_then_terminal_then_forward_witness:
  "generateInstructionsFromPayload (payload (msg_of (lit ''open'') [] False))
     = Some \<lparr>command = OPEN, parameters = None,
         expectedState = Some \<lparr>st_open = Some True, st_position = Some (Num 0),
           st_orientation = None, st_repetitions = None\<rparr>,
         labels = \<lparr>label_done = lit ''Open'', label_progress = lit ''Opening...''\<rparr>\<rparr>
   \<and> snd (on_input 5 node0 gw_busy_twice (msg_of (lit ''open'') [] False)) = Forwarded
   \<and> (\<exists>mid. fst (on_input 5 node0 gw_busy_twice (msg_of (lit ''open'') [] False)) =
         Status \<lparr>fill = lit ''yellow'', shape = lit ''dot'', status_text = lit ''Opening...''\<rparr> # mid @
         [Status \<lparr>fill = lit ''green'', shape = lit ''dot'', status_text = lit ''Open''\<rparr>,
          Send (msg_of (lit ''open'') [] False)])
   \<and> sends (fst (on_input 5 node0 gw_busy_twice (msg_of (lit ''open'') [] False))) = 1
   \<and> snd (on_input 5 node0 gw_execute_fails (msg_of (lit ''open'') [] False)) \<noteq> Forwarded
   \<and> sends (fst (on_input 5 node0 gw_execute_fails (msg_of (lit ''open'') [] False))) = 0"
proof -
  let ?m = "msg_of (lit ''open'') [] False"
  let ?i = "\<lparr>command = OPEN, parameters = None,
         expectedState = Some \<lparr>st_open = Some True, st_position = Some (Num 0),
           st_orientation = None, st_repetitions = None\<rparr>,
         labels = \<lparr>label_done = lit ''Open'', label_progress = lit ''Opening...''\<rparr>\<rparr>"
  let ?c = "\<lparr>name = lit ''open'', params = []\<rparr>"
  have g: "generateInstructionsFromPayload (payload ?m) = Some ?i"
    by (simp add: generateInstructionsFromPayload_def msg_of_def payload_of_def)
  have b: "buildCommand (payload ?m) ?i = Inr ?c"
    by (simp add: buildCommand_def msg_of_def payload_of_def)
  have ps: "progress_status ?i = \<lparr>fill = lit ''yellow'', shape = lit ''dot'', status_text = lit ''Opening...''\<rparr>"
    by (simp add: progress_status_def)
  have ts: "terminal_status ?i = \<lparr>fill = lit ''green'', shape = lit ''dot'', status_text = lit ''Open''\<rparr>"
    by (simp add: terminal_status_def)
  have x: "execute gw_busy_twice (device node0) ?c = Fulfilled \<lparr>execId = lit ''e1''\<rparr>"
    by (simp add: gw_busy_twice_def)
  have "\<forall>j<2. pending (getStatusForExecutionId gw_busy_twice (lit ''e1'') (0 + j))"
    and "getStatusForExecutionId gw_busy_twice (lit ''e1'') (0 + 2) = Fulfilled None"
    by (simp_all add: gw_busy_twice_def)
  then have "continueWhenCompleted 5 gw_busy_twice (lit ''e1'') 0 = (polls (Suc 2) (lit ''e1''), Resolved)"
    by (rule tracker_resolves) simp
  then have res: "snd (continueWhenCompleted 5 gw_busy_twice (execId \<lparr>execId = lit ''e1''\<rparr>) 0) = Resolved"
    by simp
  have y: "execute gw_execute_fails (device node0) c' = Rejected" for c'
    by (simp add: gw_execute_fails_def)
  note T1 = progress_then_terminal_then_forward [OF g, of 5 node0 gw_busy_twice]
  note T2 = progress_then_terminal_then_forward [OF g, of 5 node0 gw_execute_fails]
  from T1 b x res have f1: "snd (on_input 5 node0 gw_busy_twice ?m) = Forwarded"
    by blast
  from T2 y have f2: "snd (on_input 5 node0 gw_execute_fails ?m) \<noteq> Forwarded"
    by auto
  from T1 f1 have s1: "sends (fst (on_input 5 node0 gw_busy_twice ?m)) = 1"
    and e1: "\<exists>mid. fst (on_input 5 node0 gw_busy_twice ?m) =
         Status (progress_status ?i) # mid @ [Status (terminal_status ?i), Send ?m]"
    by auto
  from T2 f2 have s2: "sends (fst (on_input 5 node0 gw_execute_fails ?m)) = 0"
    by auto
  from g f1 e1 s1 f2 s2 show ?thesis
    unfolding ps ts by (intro conjI)
qed

text \<open>
  Claim C6. A rejection of the gateway client is caught nowhere. When \<^verbatim>\<open>execute\<close> rejects,
  the invocation ends after the progress status and that one call: no second call, no
  other status, no status call, nothing forwarded. When a status call rejects after \<open>n\<close>
  pending answers, the tracker never settles and polling stops with that call: the
  invocation ends after \<open>n + 1\<close> rounds with the progress status still shown and nothing
  forwarded, however long it is observed.
\<close>

theorem transport_failure_is_not_recovered:
  assumes "generateInstructionsFromPayload (payload msg) = Some i"
    and "buildCommand (payload msg) i = Inr c"
  shows "(execute api (device this) c = Rejected \<longrightarrow>
            on_input rounds this api msg =
              ([Status (progress_status i), Execute (device this) c], Unhandled))
    \<and> (\<forall>r es n. execute api (device this) c = Fulfilled r \<and> expectedState i = Some es
          \<and> (\<forall>j<n. pending (getStatusForExecutionId api (execId r) j))
          \<and> getStatusForExecutionId api (execId r) n = Rejected \<and> n < rounds \<longrightarrow>
            continueWhenCompleted rounds api (execId r) 0
              = (polls (Suc n) (execId r), NeverSettles)
            \<and> on_input rounds this api msg =
              ([Status (progress_status i), Execute (device this) c] @ polls (Suc n) (execId r),
               Unhandled))"
proof -
  have a: "on_input rounds this api msg =
      ([Status (progress_status i), Execute (device this) c], Unhandled)"
    if "execute api (device this) c = Rejected"
    using that by (simp add: on_input_unfold [OF assms])
  have b: "continueWhenCompleted rounds api (execId r) 0
              = (polls (Suc n) (execId r), NeverSettles)
       \<and> on_input rounds this api msg =
              ([Status (progress_status i), Execute (device this) c] @ polls (Suc n) (execId r),
               Unhandled)"
    if x: "execute api (device this) c = Fulfilled r" and e: "expectedState i = Some es"
      and p: "\<forall>j<n. pending (getStatusForExecutionId api (execId r) j)"
      and f: "getStatusForExecutionId api (execId r) n = Rejected" and lt: "n < rounds"
    for r es n
  proof -
    from p have "\<forall>j<n. pending (getStatusForExecutionId api (execId r) (0 + j))" by simp
    moreover from f have "getStatusForExecutionId api (execId r) (0 + n) = Rejected" by simp
    ultimately have t: "continueWhenCompleted rounds api (execId r) 0
        = (polls (Suc n) (execId r), NeverSettles)"
      using lt by (rule tracker_rejected)
    with x e show ?thesis
      by (simp add: on_input_unfold [OF assms])
  qed
  from a b show ?thesis by blast
qed

text \<open>
  A close command on a gateway that rejects it, and on a gateway whose third status call
  rejects.
\<close>

theorem transport_failure_is_not_recovered_witness:
  "generateInstructionsFromPayload (payload (msg_of (lit ''close'') [] False))
     = Some \<lparr>command = CLOSE, parameters = None,
         expectedState = Some \<lparr>st_open = Some False, st_position = Some (Num 100),
           st_orientation = None, st_repetitions = None\<rparr>,
         labels = \<lparr>label_done = lit ''Closed'', label_progress = lit ''Closing...''\<rparr>\<rparr>
   \<and> execute gw_execute_fails (device node0) \<lparr>name = lit ''close'', params = []\<rparr> = Rejected
   \<and> on_input 5 node0 gw_execute_fails (msg_of (lit ''close'') [] False) =
       ([Status \<lparr>fill = lit ''yellow'', shape = lit ''dot'', status_text = lit ''Closing...''\<rparr>,
         Execute (device node0) \<lparr>name = lit ''close'', params = []\<rparr>], Unhandled)
   \<and> execute gw_status_fails (device node0) \<lparr>name = lit ''close'', params = []\<rparr>
       = Fulfilled \<lparr>execId = lit ''e1''\<rparr>
   \<and> pending (getStatusForExecutionId gw_status_fails (lit ''e1'') 0)
   \<and> pending (getStatusForExecutionId gw_status_fails (lit ''e1'') 1)
   \<and> getStatusForExecutionId gw_status_fails (lit ''e1'') 2 = Rejected
   \<and> continueWhenCompleted 5 gw_status_fails (lit ''e1'') 0 =
       ([SetTimeout 2500, GetStatus (lit ''e1''), SetTimeout 2500, GetStatus (lit ''e1''),
         SetTimeout 2500, GetStatus (lit ''e1'')], NeverSettles)
   \<and> on_input 5 node0 gw_status_fails (msg_of (lit ''close'') [] False) =
       ([Status \<lparr>fill = lit ''yellow'', shape = lit ''dot'', status_text = lit ''Closing...''\<rparr>,
         Execute (device node0) \<lparr>name = lit ''close'', params = []\<rparr>,
         SetTimeout 2500, GetStatus (lit ''e1''), SetTimeout 2500, GetStatus (lit ''e1''),
         SetTimeout 2500, GetStatus (lit ''e1'')], Unhandled)"
proof -
  let ?m = "msg_of (lit ''close'') [] False"
  let ?i = "\<lparr>command = CLOSE, parameters = None,
         expectedState = Some \<lparr>st_open = Some False, st_position = Some (Num 100),
           st_orientation = None, st_repetitions = None\<rparr>,
         labels = \<lparr>label_done = lit ''Closed'', label_progress = lit ''Closing...''\<rparr>\<rparr>"
  let ?c = "\<lparr>name = lit ''close'', params = []\<rparr>"
  have g: "generateInstructionsFromPayload (payload ?m) = Some ?i"
    by (simp add: generateInstructionsFromPayload_def msg_of_def payload_of_def)
  have b: "buildCommand (payload ?m) ?i = Inr ?c"
    by (simp add: buildCommand_def msg_of_def payload_of_def)
  have x1: "execute gw_execute_fails (device node0) ?c = Rejected"
    by (simp add: gw_execute_fails_def)
  have x2: "execute gw_status_fails (device node0) ?c = Fulfilled \<lparr>execId = lit ''e1''\<rparr>"
    by (simp add: gw_status_fails_def)
  have h0: "pending (getStatusForExecutionId gw_status_fails (lit ''e1'') 0)"
    and h1: "pending (getStatusForExecutionId gw_status_fails (lit ''e1'') 1)"
    and z: "getStatusForExecutionId gw_status_fails (lit ''e1'') 2 = Rejected"
    and h: "\<forall>j<2. pending (getStatusForExecutionId gw_status_fails (lit ''e1'') j)"
    by (simp_all add: gw_status_fails_def)
  have e: "expectedState ?i = Some \<lparr>st_open = Some False, st_position = Some (Num 100),
           st_orientation = None, st_repetitions = None\<rparr>"
    and lt: "(2::nat) < 5" and id: "execId \<lparr>execId = lit ''e1''\<rparr> = lit ''e1''"
    by simp_all
  have ps: "progress_status ?i = \<lparr>fill = lit ''yellow'', shape = lit ''dot'', status_text = lit ''Closing...''\<rparr>"
    by (simp add: progress_status_def)
  have p3: "polls (Suc 2) (lit ''e1'') = [SetTimeout 2500, GetStatus (lit ''e1''), SetTimeout 2500,
      GetStatus (lit ''e1''), SetTimeout 2500, GetStatus (lit ''e1'')]"
    by (simp add: polls_def STATE_VALIDATOR_POLLING_DELAY_def numeral_2_eq_2)
  from transport_failure_is_not_recovered [OF g b, of gw_execute_fails node0 5] x1
  have r1: "on_input 5 node0 gw_execute_fails ?m = ([Status (progress_status ?i), Execute (device node0) ?c], Unhandled)"
    by blast
  have "continueWhenCompleted 5 gw_status_fails (lit ''e1'') 0 = (polls (Suc 2) (lit ''e1''), NeverSettles)
      \<and> on_input 5 node0 gw_status_fails ?m =
              ([Status (progress_status ?i), Execute (device node0) ?c] @ polls (Suc 2) (lit ''e1''),
               Unhandled)"
    using transport_failure_is_not_recovered [OF g b, of gw_status_fails node0 5,
        THEN conjunct2, rule_format, of "\<lparr>execId = lit ''e1''\<rparr>" _ 2] x2 e h z lt
    by simp
  then have r2: "continueWhenCompleted 5 gw_status_fails (lit ''e1'') 0 = (polls (Suc 2) (lit ''e1''), NeverSettles)"
    and r3: "on_input 5 node0 gw_status_fails ?m =
              ([Status (progress_status ?i), Execute (device node0) ?c] @ polls (Suc 2) (lit ''e1''), Unhandled)"
    by blast+
  from r3 have r3': "on_input 5 node0 gw_status_fails ?m =
       ([Status \<lparr>fill = lit ''yellow'', shape = lit ''dot'', status_text = lit ''Closing...''\<rparr>,
         Execute (device node0) ?c,
         SetTimeout 2500, GetStatus (lit ''e1''), SetTimeout 2500, GetStatus (lit ''e1''),
         SetTimeout 2500, GetStatus (lit ''e1'')], Unhandled)"
    unfolding ps p3 by simp
  from g x1 r1 x2 h0 h1 z r2 r3' show ?thesis
    unfolding ps p3 by (intro conjI)
qed

text \<open>
  Claim C7. For a payload whose action is none of the labels of the \<^verbatim>\<open>switch\<close>, the resolver
  returns \<^verbatim>\<open>null\<close> and the handler returns at once: no status, no call of the gateway, no
  message forwarded.
\<close>

theorem unrecognized_action_is_ignored:
  assumes "action (payload msg) \<notin> set action_table"
  shows "generateInstructionsFromPayload (payload msg) = None
         \<and> on_input rounds this api msg = ([], Ignored)"
proof -
  from assms have "generateInstructionsFromPayload (payload msg) = None"
    by (simp add: resolver_None_iff)
  then show ?thesis
    by (simp add: on_input_def)
qed

text \<open>
  The action \<^verbatim>\<open>bogus\<close>.
\<close>

theorem unrecognized_action_is_ignored_witness:
  "action (payload (msg_of (lit ''bogus'') (lit ''42'') True)) \<notin> set action_table
   \<and> generateInstructionsFromPayload (payload (msg_of (lit ''bogus'') (lit ''42'') True)) = None
   \<and> on_input 5 node0 gw_busy_twice (msg_of (lit ''bogus'') (lit ''42'') True) = ([], Ignored)"
proof -
  have a: "action (payload (msg_of (lit ''bogus'') (lit ''42'') True)) \<notin> set action_table"
    by (simp add: msg_of_def payload_of_def action_table_def)
  from unrecognized_action_is_ignored [OF a, of 5 node0 gw_busy_twice] a show ?thesis
    by (intro conjI) simp_all
qed




text \<open>
  Claim C9. An instruction of the resolver whose command is not STOP has an expected state,
  so the low-speed override never reads the position of an undefined expected state and
  the handler never throws. Under the override, an expected position that is absent, zero
  or the not-a-number value gives the wire parameters [0].
\<close>

theorem lowspeed_position_is_defined:
  assumes "generateInstructionsFromPayload p = Some i"
  shows "(command i \<noteq> STOP \<longrightarrow> (\<exists>es. expectedState i = Some es))
    \<and> (\<exists>c. buildCommand p i = Inr c)
    \<and> (\<forall>rounds this api msg e. payload msg = p \<longrightarrow>
          snd (on_input rounds this api msg) \<noteq> Threw e)
    \<and> (\<forall>es. lowspeed p \<and> command i \<noteq> STOP \<and> expectedState i = Some es
          \<and> (st_position es = None \<or> st_position es = Some (Num 0) \<or> st_position es = Some NaN)
          \<longrightarrow> buildCommand p i = Inr \<lparr>name = lit ''position_low_speed'', params = [Num 0]\<rparr>)"
proof -
  have a: "command i \<noteq> STOP \<longrightarrow> (\<exists>es. expectedState i = Some es)"
    using resolver_cases [OF assms] by blast
  obtain c where c: "buildCommand p i = Inr c"
    using buildCommand_never_throws [OF assms] by blast
  have t: "snd (on_input rounds this api msg) \<noteq> Threw e" if "payload msg = p"
    for rounds this api msg e
    using that assms c
    by (simp add: on_input_unfold split: future.splits option.splits tracking.splits)
  have z: "buildCommand p i = Inr \<lparr>name = lit ''position_low_speed'', params = [Num 0]\<rparr>"
    if "lowspeed p" "command i \<noteq> STOP" "expectedState i = Some es"
      "st_position es = None \<or> st_position es = Some (Num 0) \<or> st_position es = Some NaN"
    for es
    using that by (auto simp: buildCommand_def Let_def enum_value_stop targetPosition_def)
  from a c t z show ?thesis by blast
qed

text \<open>
  Low speed with a malformed position, with no position (a rotation) and with position 0
  (open).
\<close>

theorem lowspeed_position_is_defined_witness:
  "(\<exists>i es. generateInstructionsFromPayload (payload_of (lit ''customPosition'') (lit ''abc'') True) = Some i
       \<and> command i \<noteq> STOP \<and> lowspeed (payload_of (lit ''customPosition'') (lit ''abc'') True)
       \<and> expectedState i = Some es \<and> st_position es = Some NaN
       \<and> buildCommand (payload_of (lit ''customPosition'') (lit ''abc'') True) i
           = Inr \<lparr>name = lit ''position_low_speed'', params = [Num 0]\<rparr>)
   \<and> (\<exists>i es. generateInstructionsFromPayload (payload_of (lit ''customRotation'') (lit ''30'') True) = Some i
       \<and> command i \<noteq> STOP \<and> lowspeed (payload_of (lit ''customRotation'') (lit ''30'') True)
       \<and> expectedState i = Some es \<and> st_position es = None
       \<and> buildCommand (payload_of (lit ''customRotation'') (lit ''30'') True) i
           = Inr \<lparr>name = lit ''position_low_speed'', params = [Num 0]\<rparr>)
   \<and> (\<exists>i es. generateInstructionsFromPayload (payload_of (lit ''open'') [] True) = Some i
       \<and> command i \<noteq> STOP \<and> lowspeed (payload_of (lit ''open'') [] True)
       \<and> expectedState i = Some es \<and> st_position es = Some (Num 0)
       \<and> buildCommand (payload_of (lit ''open'') [] True) i
           = Inr \<lparr>name = lit ''position_low_speed'', params = [Num 0]\<rparr>)
   \<and> snd (on_input 5 node0 gw_busy_twice (msg_of (lit ''customPosition'') (lit ''abc'') True)) \<noteq> Threw TypeError"
proof -
  have n: "parseInt10 (lit ''abc'') = NaN"
    by (simp add: parse_defs)
  let ?p1 = "payload_of (lit ''customPosition'') (lit ''abc'') True"
  let ?i1 = "\<lparr>command = SET_CLOSURE, parameters = Some [NaN],
         expectedState = Some \<lparr>st_open = Some True, st_position = Some NaN,
           st_orientation = None, st_repetitions = None\<rparr>,
         labels = \<lparr>label_done = lit ''Set to abc'', label_progress = lit ''Setting to abc''\<rparr>\<rparr>"
  have g1: "generateInstructionsFromPayload ?p1 = Some ?i1"
    by (simp add: generateInstructionsFromPayload_def payload_of_def n)
  have l1: "lowspeed ?p1" by (simp add: payload_of_def)
  from lowspeed_position_is_defined [OF g1] l1
  have b1: "buildCommand ?p1 ?i1 = Inr \<lparr>name = lit ''position_low_speed'', params = [Num 0]\<rparr>"
    by simp
  have m1: "payload (msg_of (lit ''customPosition'') (lit ''abc'') True) = ?p1"
    by (simp add: msg_of_def)
  from lowspeed_position_is_defined [OF g1] m1
  have t1: "snd (on_input 5 node0 gw_busy_twice (msg_of (lit ''customPosition'') (lit ''abc'') True)) \<noteq> Threw TypeError"
    by blast
  let ?p2 = "payload_of (lit ''customRotation'') (lit ''30'') True"
  obtain i2 where g2: "generateInstructionsFromPayload ?p2 = Some i2"
    and c2: "command i2 \<noteq> STOP"
    and e2: "expectedState i2 = Some \<lparr>st_open = None, st_position = None,
           st_orientation = Some (parseInt10 (lit ''30'')), st_repetitions = None\<rparr>"
    by (simp add: generateInstructionsFromPayload_def payload_of_def)
  have l2: "lowspeed ?p2" by (simp add: payload_of_def)
  from lowspeed_position_is_defined [OF g2] l2 c2 e2
  have b2: "buildCommand ?p2 i2 = Inr \<lparr>name = lit ''position_low_speed'', params = [Num 0]\<rparr>"
    by simp
  let ?p3 = "payload_of (lit ''open'') [] True"
  obtain i3 where g3: "generateInstructionsFromPayload ?p3 = Some i3"
    and c3: "command i3 \<noteq> STOP"
    and e3: "expectedState i3 = Some \<lparr>st_open = Some True, st_position = Some (Num 0),
           st_orientation = None, st_repetitions = None\<rparr>"
    by (simp add: generateInstructionsFromPayload_def payload_of_def)
  have l3: "lowspeed ?p3" by (simp add: payload_of_def)
  from lowspeed_position_is_defined [OF g3] l3 c3 e3
  have b3: "buildCommand ?p3 i3 = Inr \<lparr>name = lit ''position_low_speed'', params = [Num 0]\<rparr>"
    by simp
  have w1: "\<exists>i es. generateInstructionsFromPayload ?p1 = Some i
       \<and> command i \<noteq> STOP \<and> lowspeed ?p1
       \<and> expectedState i = Some es \<and> st_position es = Some NaN
       \<and> buildCommand ?p1 i = Inr \<lparr>name = lit ''position_low_speed'', params = [Num 0]\<rparr>"
    using g1 l1 b1 by (intro exI [of _ ?i1]) simp
  have w2: "\<exists>i es. generateInstructionsFromPayload ?p2 = Some i
       \<and> command i \<noteq> STOP \<and> lowspeed ?p2
       \<and> expectedState i = Some es \<and> st_position es = None
       \<and> buildCommand ?p2 i = Inr \<lparr>name = lit ''position_low_speed'', params = [Num 0]\<rparr>"
    using g2 c2 l2 e2 b2 by (intro exI [of _ i2]) simp
  have w3: "\<exists>i es. generateInstructionsFromPayload ?p3 = Some i
       \<and> command i \<noteq> STOP \<and> lowspeed ?p3
       \<and> expectedState i = Some es \<and> st_position es = Some (Num 0)
       \<and> buildCommand ?p3 i = Inr \<lparr>name = lit ''position_low_speed'', params = [Num 0]\<rparr>"
    using g3 c3 l3 e3 b3 by (intro exI [of _ i3]) simp
  from w1 w2 w3 t1 show ?thesis
    by (intro conjI)
qed

text \<open>
  Claim C10. The action \<^verbatim>\<open>wink\<close> with the repetitions text \<open>r\<close> resolves to the command
  WINK with the parameters [parsed \<open>r\<close>], the expected state of parsed \<open>r\<close>
  repetitions, the progress label \<^verbatim>\<open>Winking r time(s)\<close> and the done label \<^verbatim>\<open>Stopped\<close>,
  which is the done label of the action \<^verbatim>\<open>stop\<close>.
\<close>

theorem wink_done_label_is_stopped:
  assumes "action p = lit ''wink''"
  shows "generateInstructionsFromPayload p =
           Some \<lparr>command = WINK, parameters = Some [parseInt10 (repetitions p)],
             expectedState = Some \<lparr>st_open = None, st_position = None, st_orientation = None,
               st_repetitions = Some (parseInt10 (repetitions p))\<rparr>,
             labels = \<lparr>label_done = lit ''Stopped'',
               label_progress = lit ''Winking '' @ repetitions p @ lit '' time(s)''\<rparr>\<rparr>
         \<and> (\<forall>q i. action q = lit ''stop'' \<and> generateInstructionsFromPayload q = Some i \<longrightarrow>
               label_done (labels i) = lit ''Stopped'')"
  using assms
  by (auto simp: generateInstructionsFromPayload_def)

text \<open>
  Three winks, and the done label of a stop payload.
\<close>

theorem wink_done_label_is_stopped_witness:
  "action (payload_of (lit ''wink'') (lit ''3'') False) = lit ''wink''
   \<and> generateInstructionsFromPayload (payload_of (lit ''wink'') (lit ''3'') False) =
           Some \<lparr>command = WINK, parameters = Some [Num 3],
             expectedState = Some \<lparr>st_open = None, st_position = None, st_orientation = None,
               st_repetitions = Some (Num 3)\<rparr>,
             labels = \<lparr>label_done = lit ''Stopped'', label_progress = lit ''Winking 3 time(s)''\<rparr>\<rparr>
   \<and> action (payload_of (lit ''stop'') [] False) = lit ''stop''
   \<and> (\<exists>i. generateInstructionsFromPayload (payload_of (lit ''stop'') [] False) = Some i
         \<and> label_done (labels i) = lit ''Stopped'')"
proof -
  have a: "action (payload_of (lit ''wink'') (lit ''3'') False) = lit ''wink''"
    by (simp add: payload_of_def)
  have n: "parseInt10 (lit ''3'') = Num 3"
    by (simp add: parse_defs)
  have r: "repetitions (payload_of (lit ''wink'') (lit ''3'') False) = lit ''3''"
    by (simp add: payload_of_def)
  have s: "action (payload_of (lit ''stop'') [] False) = lit ''stop''"
    by (simp add: payload_of_def)
  obtain i where i: "generateInstructionsFromPayload (payload_of (lit ''stop'') [] False) = Some i"
    by (simp add: generateInstructionsFromPayload_def s)
  from wink_done_label_is_stopped [OF a] have
    w: "generateInstructionsFromPayload (payload_of (lit ''wink'') (lit ''3'') False) =
           Some \<lparr>command = WINK, parameters = Some [Num 3],
             expectedState = Some \<lparr>st_open = None, st_position = None, st_orientation = None,
               st_repetitions = Some (Num 3)\<rparr>,
             labels = \<lparr>label_done = lit ''Stopped'', label_progress = lit ''Winking 3 time(s)''\<rparr>\<rparr>"
    and d: "label_done (labels i) = lit ''Stopped''"
    using s i by (simp_all add: n r)
  from a w s i d show ?thesis by simp
qed

end
